theory Spec2Isabelle
  imports Main "HOL-Library.Word"
begin

section \<open>JavaScript values of the bridge\<close>

text \<open>
  A JavaScript string is a sequence of UTF-16 code units: \<open>length\<close>, \<open>substring\<close>,
  the regular expressions and the keys of \<open>emojiMap\<close> of \<open>index.js\<close> all work on code units.
  A property of a decoded JSON payload is missing (\<open>undefined\<close>), \<open>null\<close> or, in the
  payloads covered here, a string. \<open>===\<close> on such values is equality of \<open>jsval\<close>.
\<close>

type_synonym jschar = "16 word"
type_synonym jsstring = "jschar list"

definition ascii :: "string \<Rightarrow> jsstring" where
  "ascii s = map of_char s"

datatype jsval = Undefined | Null | Str jsstring

text \<open>Truthiness: \<open>undefined\<close>, \<open>null\<close> and the empty string are falsy.\<close>

fun truthy :: "jsval \<Rightarrow> bool" where
  "truthy (Str s) = (s \<noteq> [])"
| "truthy Undefined = False"
| "truthy Null = False"

text \<open>\<open>v || 'literal'\<close> for a string-valued property \<open>v\<close>.\<close>

fun or_default :: "jsval \<Rightarrow> jsstring \<Rightarrow> jsstring" where
  "or_default (Str s) d = (if s = [] then d else s)"
| "or_default Undefined d = d"
| "or_default Null d = d"

text \<open>\<open>String.prototype.includes\<close>: \<open>t\<close> occurs in \<open>s\<close> as a contiguous run.\<close>

definition startsWith :: "jsstring \<Rightarrow> jsstring \<Rightarrow> bool" where
  "startsWith s t = (take (length t) s = t)"

fun js_includes :: "jsstring \<Rightarrow> jsstring \<Rightarrow> bool" where
  "js_includes [] t = (t = [])"
| "js_includes (c # cs) t = (startsWith (c # cs) t \<or> js_includes cs t)"

section \<open>Payload shapes\<close>

record attachment =
  att_type :: jsval
  att_reply_id :: jsval
  att_base_reply_id :: jsval
  att_url :: jsval

record reactor =
  re_emoji :: jsval
  re_nickname :: jsval
  re_image_url :: jsval

text \<open>
  A GroupMe message, as the webhook body and as an entry of the history.
  \<open>attachments\<close> and \<open>favorited_by\<close> are \<open>None\<close> when the property is missing or null.
\<close>

record message =
  m_id :: jsval
  m_group_id :: jsval
  m_user_id :: jsval
  m_name :: jsval
  m_text :: jsval
  m_avatar_url :: jsval
  m_sender_type :: jsval
  m_attachments :: "attachment list option"
  m_favorited_by :: "reactor list option"

text \<open>The object \<open>reactionData\<close> built by \<open>handleGroupMeWebhook\<close>.\<close>

record reactionData =
  rd_favorited_by :: reactor
  rd_message_id :: jsval
  rd_group_id :: jsval

section \<open>The outside world\<close>

text \<open>
  What \<open>getGroupMeMessages\<close> returns: \<open>data.response.messages\<close> is an array of
  messages, or something without a \<open>find\<close> method (missing, null, a scalar).
\<close>

datatype fetched = Arr "message list" | NotArr

text \<open>
  A response body as \<open>getGroupMeMessages\<close> reads it: \<open>JSON.parse\<close> throws
  (\<open>Unparsable\<close>), \<open>data.response\<close> cannot be read or is null (\<open>NoResponse\<close>), or
  \<open>data.response.messages\<close> evaluates to a value.
\<close>

datatype body = Unparsable | NoResponse | Messages fetched

text \<open>\<open>makeRequest\<close> rejects (transport error) or resolves with a status code and a body.\<close>

datatype http_result = Rejected | Resolved nat body

datatype error = TypeError | SyntaxError | TransportFailure

text \<open>
  The value of \<open>convertReactionEmoji\<close>: a string, or the member that the object literal
  \<open>emojiMap\<close> inherits from \<open>Object.prototype\<close> under the given name.
\<close>

datatype emoji_value = Glyph jsstring | Inherited jsstring

text \<open>
  The payloads posted to Discord. \<open>content\<close> of a reaction notification is the template
  \<open>${emoji} **${reacterName}** reacted to: "${messagePreview}"\<close>; its three parts are kept
  apart.
\<close>

record discord_message =
  dm_username :: jsstring
  dm_content :: jsstring
  dm_avatar_url :: jsval
  dm_embeds :: "jsval list option"

record discord_reaction =
  dr_username :: jsstring
  dr_emoji :: emoji_value
  dr_reacterName :: jsstring
  dr_messagePreview :: jsstring
  dr_avatar_url :: jsval

text \<open>
  The requests sent. \<open>GetMessages groupId limit before\<close> is the GET of
  \<open>/v3/groups/${groupId}/messages?token=...&limit=${limit}\<close>, with
  \<open>&before_id=${beforeId}\<close> appended exactly when \<open>before\<close> is \<open>Some beforeId\<close>.
\<close>

datatype request =
    GetMessages jsval nat "jsstring option"
  | PostMessage discord_message
  | PostReaction discord_reaction

text \<open>
  The environment of a run: the network, the built-in \<open>String.prototype.toLowerCase\<close>,
  the access token, and whether \<open>new URL(DISCORD_WEBHOOK_URL)\<close> succeeds (it throws a
  TypeError when the variable is unset or not a URL).
\<close>

record env =
  network :: "request \<Rightarrow> http_result"
  toLowerCase :: "jsstring \<Rightarrow> jsstring"
  GROUPME_ACCESS_TOKEN :: jsval
  DISCORD_WEBHOOK_URL_parses :: bool

text \<open>The log of calls made during a run, in order.\<close>

datatype call =
    Call_makeRequest request
  | Call_getGroupMeMessages jsval jsval nat
  | Call_findReplyContext message
  | Call_detectReplyFromText message fetched
  | Call_sendToDiscord message "message option"
  | Call_sendReactionToDiscord reactionData message

section \<open>History fetch and structured reply lookup\<close>

definition makeRequest :: "env \<Rightarrow> request \<Rightarrow> call list \<times> http_result" where
  "makeRequest E options = ([Call_makeRequest options], network E options)"

text \<open>The \<open>try\<close> block of \<open>getGroupMeMessages\<close>, given the outcome of the request.\<close>

fun getGroupMeMessages_try :: "http_result \<Rightarrow> error + fetched" where
  "getGroupMeMessages_try Rejected = Inl TransportFailure"
| "getGroupMeMessages_try (Resolved statusCode b) =
     (if statusCode = 200 then
        (case b of
           Unparsable \<Rightarrow> Inl SyntaxError
         | NoResponse \<Rightarrow> Inl TypeError
         | Messages v \<Rightarrow> Inr v)
      else Inr (Arr []))"

text \<open>Lines 61 to 75: \<open>before_id\<close> is sent only for a truthy \<open>beforeId\<close>.\<close>

definition messages_path :: "jsval \<Rightarrow> jsval \<Rightarrow> nat \<Rightarrow> request" where
  "messages_path groupId beforeId limit =
     GetMessages groupId limit
       (case beforeId of
          Str b \<Rightarrow> if b = [] then None else Some b
        | Undefined \<Rightarrow> None
        | Null \<Rightarrow> None)"

definition getGroupMeMessages ::
  "env \<Rightarrow> jsval \<Rightarrow> jsval \<Rightarrow> nat \<Rightarrow> call list \<times> (error + fetched)" where
  "getGroupMeMessages E groupId beforeId limit =
     (let (log, response) = makeRequest E (messages_path groupId beforeId limit)
      in (Call_getGroupMeMessages groupId beforeId limit # log,
          case getGroupMeMessages_try response of
            Inl e \<Rightarrow> Inr (Arr [])
          | Inr v \<Rightarrow> Inr v))"

text \<open>\<open>Array.prototype.find\<close> on a fetched value; a value that is no array has no \<open>find\<close>.\<close>

fun js_find :: "(message \<Rightarrow> bool) \<Rightarrow> fetched \<Rightarrow> error + message option" where
  "js_find P (Arr ms) = Inr (find P ms)"
| "js_find P NotArr = Inl TypeError"

definition findReplyContext :: "env \<Rightarrow> message \<Rightarrow> call list \<times> (error + message option)" where
  "findReplyContext E message =
     (case m_attachments message of
        None \<Rightarrow> ([Call_findReplyContext message], Inr None)
      | Some atts \<Rightarrow>
          if length atts = 0 then ([Call_findReplyContext message], Inr None)
          else
            (case find (\<lambda>att. att_type att = Str (ascii ''reply'')) atts of
               None \<Rightarrow> ([Call_findReplyContext message], Inr None)
             | Some replyAttachment \<Rightarrow>
                 (let (log, r) = getGroupMeMessages E (m_group_id message) (m_id message) 50
                  in (Call_findReplyContext message # log,
                      case r of
                        Inl e \<Rightarrow> Inl e
                      | Inr messages \<Rightarrow>
                          js_find (\<lambda>msg. m_id msg = att_reply_id replyAttachment
                                         \<or> m_id msg = att_base_reply_id replyAttachment)
                            messages))))"

section \<open>The regular expressions of \<open>detectReplyFromText\<close>\<close>

text \<open>
  The character classes of ECMAScript without the \<open>u\<close> and \<open>i\<close> flags: \<open>\w\<close> is
  \<open>[A-Za-z0-9_]\<close>; \<open>.\<close> is any code unit but a line terminator; \<open>\s\<close> is white space
  or a line terminator.
\<close>

definition isWordChar :: "jschar \<Rightarrow> bool" where
  "isWordChar c = ((0x30 \<le> c \<and> c \<le> 0x39) \<or> (0x41 \<le> c \<and> c \<le> 0x5A) \<or> c = 0x5F
                    \<or> (0x61 \<le> c \<and> c \<le> 0x7A))"

definition isLineTerminator :: "jschar \<Rightarrow> bool" where
  "isLineTerminator c = (c = 0x0A \<or> c = 0x0D \<or> c = 0x2028 \<or> c = 0x2029)"

definition isDot :: "jschar \<Rightarrow> bool" where
  "isDot c = (\<not> isLineTerminator c)"

definition isWhiteSpace :: "jschar \<Rightarrow> bool" where
  "isWhiteSpace c = (isLineTerminator c \<or> c = 0x09 \<or> c = 0x0B \<or> c = 0x0C \<or> c = 0x20
                      \<or> c = 0xA0 \<or> c = 0x1680 \<or> (0x2000 \<le> c \<and> c \<le> 0x200A) \<or> c = 0x202F
                      \<or> c = 0x205F \<or> c = 0x3000 \<or> c = 0xFEFF)"

text \<open>
  \<open>text.match(/@(\w+)/)\<close>, the value of group 1: the leftmost \<open>@\<close> that a word character
  follows, and the longest run of word characters after it.
\<close>

fun match_mention :: "jsstring \<Rightarrow> jsstring option" where
  "match_mention [] = None"
| "match_mention (c # cs) =
     (if c = 0x40 \<and> takeWhile isWordChar cs \<noteq> [] then Some (takeWhile isWordChar cs)
      else match_mention cs)"

text \<open>
  \<open>text.match(/^>\s*(.+)/m)\<close>, the value of group 1. With the \<open>m\<close> flag \<open>^\<close> holds at
  the start of the input and after a line terminator. After \<open>>\<close>, the greedy \<open>\s*\<close>
  takes \<open>k\<close> code units, the most first, and gives them back one at a time until the greedy
  \<open>.+\<close> finds a code unit to take.
\<close>

fun quote_capture :: "nat \<Rightarrow> jsstring \<Rightarrow> jsstring option" where
  "quote_capture 0 r = (if takeWhile isDot r \<noteq> [] then Some (takeWhile isDot r) else None)"
| "quote_capture (Suc k) r =
     (if takeWhile isDot (drop (Suc k) r) \<noteq> [] then Some (takeWhile isDot (drop (Suc k) r))
      else quote_capture k r)"

definition quote_at :: "jsstring \<Rightarrow> jsstring option" where
  "quote_at r = quote_capture (length (takeWhile isWhiteSpace r)) r"

fun scan_quote :: "bool \<Rightarrow> jsstring \<Rightarrow> jsstring option" where
  "scan_quote bol [] = None"
| "scan_quote bol (c # cs) =
     (if bol \<and> c = 0x3E then
        (case quote_at cs of
           Some t \<Rightarrow> Some t
         | None \<Rightarrow> scan_quote (isLineTerminator c) cs)
      else scan_quote (isLineTerminator c) cs)"

definition match_quote :: "jsstring \<Rightarrow> jsstring option" where
  "match_quote s = scan_quote True s"

text \<open>
  \<open>text.match(/^(.+):\s*$/m)\<close>, the value of group 1. \<open>tail_ok r\<close> is \<open>\s*$\<close> at \<open>r\<close>:
  with the \<open>m\<close> flag \<open>$\<close> holds at the end of the input and before a line terminator.
  The greedy \<open>.+\<close> takes the rest of the line, \<open>j\<close> code units, and gives them back one
  at a time until \<open>:\s*$\<close> follows.
\<close>

fun tail_ok :: "jsstring \<Rightarrow> bool" where
  "tail_ok [] = True"
| "tail_ok (c # cs) = (isLineTerminator c \<or> (isWhiteSpace c \<and> tail_ok cs))"

fun colon_capture :: "nat \<Rightarrow> jsstring \<Rightarrow> jsstring option" where
  "colon_capture 0 s = None"
| "colon_capture (Suc j) s =
     (case drop (Suc j) s of
        [] \<Rightarrow> colon_capture j s
      | c # r \<Rightarrow> if c = 0x3A \<and> tail_ok r then Some (take (Suc j) s) else colon_capture j s)"

definition colon_at :: "jsstring \<Rightarrow> jsstring option" where
  "colon_at s = colon_capture (length (takeWhile isDot s)) s"

fun scan_colon :: "bool \<Rightarrow> jsstring \<Rightarrow> jsstring option" where
  "scan_colon bol [] = None"
| "scan_colon bol (c # cs) =
     (if bol then
        (case colon_at (c # cs) of
           Some t \<Rightarrow> Some t
         | None \<Rightarrow> scan_colon (isLineTerminator c) cs)
      else scan_colon (isLineTerminator c) cs)"

definition match_colon :: "jsstring \<Rightarrow> jsstring option" where
  "match_colon s = scan_colon True s"

section \<open>Heuristic reply detection\<close>

text \<open>The two predicates handed to \<open>recentMessages.find\<close>.\<close>

definition mention_pred :: "env \<Rightarrow> message \<Rightarrow> jsstring \<Rightarrow> message \<Rightarrow> bool" where
  "mention_pred E message mentionedName msg =
     ((case m_name msg of
         Str n \<Rightarrow> n \<noteq> [] \<and> js_includes (toLowerCase E n) mentionedName
       | _ \<Rightarrow> False)
      \<and> m_id msg \<noteq> m_id message
      \<and> m_user_id msg \<noteq> m_user_id message)"

definition quote_pred :: "env \<Rightarrow> message \<Rightarrow> jsstring \<Rightarrow> message \<Rightarrow> bool" where
  "quote_pred E message quotedText msg =
     ((case m_text msg of
         Str t \<Rightarrow> t \<noteq> [] \<and> js_includes (toLowerCase E t) quotedText
       | _ \<Rightarrow> False)
      \<and> m_id msg \<noteq> m_id message
      \<and> m_user_id msg \<noteq> m_user_id message)"

text \<open>The array \<open>replyPatterns\<close> and the \<open>for\<close> loop over it.\<close>

definition replyPatterns :: "(jsstring \<Rightarrow> jsstring option) list" where
  "replyPatterns = [match_quote, match_colon]"

fun pattern_loop ::
  "env \<Rightarrow> message \<Rightarrow> jsstring \<Rightarrow> fetched \<Rightarrow> (jsstring \<Rightarrow> jsstring option) list
     \<Rightarrow> error + message option" where
  "pattern_loop E message txt recentMessages [] = Inr None"
| "pattern_loop E message txt recentMessages (pattern # rest) =
     (case pattern txt of
        None \<Rightarrow> pattern_loop E message txt recentMessages rest
      | Some g \<Rightarrow>
          (case js_find (quote_pred E message (toLowerCase E g)) recentMessages of
             Inl e \<Rightarrow> Inl e
           | Inr (Some repliedMessage) \<Rightarrow> Inr (Some repliedMessage)
           | Inr None \<Rightarrow> pattern_loop E message txt recentMessages rest))"

definition detectReplyFromText ::
  "env \<Rightarrow> message \<Rightarrow> fetched \<Rightarrow> call list \<times> (error + message option)" where
  "detectReplyFromText E message recentMessages =
     ([Call_detectReplyFromText message recentMessages],
      case m_text message of
        Str txt \<Rightarrow>
          if txt = [] then Inr None
          else
            (case match_mention txt of
               None \<Rightarrow> pattern_loop E message txt recentMessages replyPatterns
             | Some g \<Rightarrow>
                 (case js_find (mention_pred E message (toLowerCase E g)) recentMessages of
                    Inl e \<Rightarrow> Inl e
                  | Inr (Some repliedMessage) \<Rightarrow> Inr (Some repliedMessage)
                  | Inr None \<Rightarrow> pattern_loop E message txt recentMessages replyPatterns))
      | _ \<Rightarrow> Inr None)"

section \<open>Reactions\<close>

text \<open>
  The own properties of the object literal \<open>emojiMap\<close>, as UTF-16 code units: the key
  U+2764 maps to U+2764 U+FE0F, the eight other keys map to themselves.
\<close>

definition emojiMap :: "(jsstring \<times> jsstring) list" where
  "emojiMap =
     [([0x2764], [0x2764, 0xFE0F]),
      ([0xD83D, 0xDC4D], [0xD83D, 0xDC4D]),
      ([0xD83D, 0xDC4E], [0xD83D, 0xDC4E]),
      ([0xD83D, 0xDE02], [0xD83D, 0xDE02]),
      ([0xD83D, 0xDE22], [0xD83D, 0xDE22]),
      ([0xD83D, 0xDE2E], [0xD83D, 0xDE2E]),
      ([0xD83D, 0xDE21], [0xD83D, 0xDE21]),
      ([0xD83D, 0xDC4F], [0xD83D, 0xDC4F]),
      ([0xD83E, 0xDEA9], [0xD83E, 0xDEA9])]"

text \<open>
  \<open>emojiMap[key]\<close> also finds what an object literal inherits: the members of
  \<open>Object.prototype\<close>, all of them truthy.
\<close>

definition Object_prototype :: "jsstring list" where
  "Object_prototype =
     [ascii ''constructor'', ascii ''__defineGetter__'', ascii ''__defineSetter__'',
      ascii ''hasOwnProperty'', ascii ''__lookupGetter__'', ascii ''__lookupSetter__'',
      ascii ''isPrototypeOf'', ascii ''propertyIsEnumerable'', ascii ''toString'',
      ascii ''valueOf'', ascii ''__proto__'', ascii ''toLocaleString'']"

definition convertReactionEmoji :: "jsstring \<Rightarrow> emoji_value" where
  "convertReactionEmoji groupmeEmoji =
     (case map_of emojiMap groupmeEmoji of
        Some v \<Rightarrow> Glyph (if v = [] then groupmeEmoji else v)
      | None \<Rightarrow>
          if groupmeEmoji \<in> set Object_prototype then Inherited groupmeEmoji
          else Glyph groupmeEmoji)"

text \<open>Lines 243 to 256 of \<open>sendReactionToDiscord\<close>: the payload of the notification.\<close>

definition reactionPayload :: "reactionData \<Rightarrow> message \<Rightarrow> discord_reaction" where
  "reactionPayload reactionData originalMessage =
     (let emoji = convertReactionEmoji
                    (or_default (re_emoji (rd_favorited_by reactionData)) [0x2764, 0xFE0F]);
          reacterName = or_default (re_nickname (rd_favorited_by reactionData)) (ascii ''Someone'');
          messagePreview = or_default (m_text originalMessage) (ascii ''[No text content]'');
          messagePreview = (if length messagePreview > 100
                            then take 97 messagePreview @ ascii ''...''
                            else messagePreview)
      in \<lparr> dr_username = ascii ''GroupMe Reactions'',
           dr_emoji = emoji,
           dr_reacterName = reacterName,
           dr_messagePreview = messagePreview,
           dr_avatar_url = (if truthy (re_image_url (rd_favorited_by reactionData))
                            then re_image_url (rd_favorited_by reactionData) else Null) \<rparr>)"

text \<open>The \<open>try\<close>/\<open>catch\<close> around a POST to Discord: \<open>statusCode < 300\<close>, or false.\<close>

fun delivered :: "http_result \<Rightarrow> bool" where
  "delivered Rejected = False"
| "delivered (Resolved statusCode b) = (statusCode < 300)"

definition sendReactionToDiscord ::
  "env \<Rightarrow> reactionData \<Rightarrow> message \<Rightarrow> call list \<times> (error + bool)" where
  "sendReactionToDiscord E reactionData originalMessage =
     (if \<not> DISCORD_WEBHOOK_URL_parses E
      then ([Call_sendReactionToDiscord reactionData originalMessage], Inl TypeError)
      else
        (let payload = reactionPayload reactionData originalMessage;
             (log, response) = makeRequest E (PostReaction payload)
         in (Call_sendReactionToDiscord reactionData originalMessage # log,
             Inr (delivered response))))"

section \<open>Messages\<close>

text \<open>Lines 186 to 215 of \<open>sendToDiscord\<close>: the payload of the message.\<close>

definition messagePayload :: "message \<Rightarrow> message option \<Rightarrow> discord_message" where
  "messagePayload message replyContext =
     (let content = or_default (m_text message) (ascii ''[No text content]'');
          content =
            (case replyContext of
               None \<Rightarrow> content
             | Some rc \<Rightarrow>
                 (let originalText = or_default (m_text rc) (ascii ''[No text content]'');
                      originalAuthor = or_default (m_name rc) (ascii ''Unknown User'');
                      originalPreview = (if length originalText > 150
                                         then take 147 originalText @ ascii ''...''
                                         else originalText)
                  in ascii ''**Replying to '' @ originalAuthor @ ascii '':** '' @ [0x22] @ originalPreview
                       @ [0x22, 0x0A, 0x0A] @ content));
          images = (case m_attachments message of
                      None \<Rightarrow> []
                    | Some atts \<Rightarrow> filter (\<lambda>att. att_type att = Str (ascii ''image'')) atts)
      in \<lparr> dm_username = or_default (m_name message) (ascii ''GroupMe User''),
           dm_content = content,
           dm_avatar_url = m_avatar_url message,
           dm_embeds = (if length images > 0 then Some (map att_url images) else None) \<rparr>)"

definition sendToDiscord ::
  "env \<Rightarrow> message \<Rightarrow> message option \<Rightarrow> call list \<times> (error + bool)" where
  "sendToDiscord E message replyContext =
     (if \<not> DISCORD_WEBHOOK_URL_parses E
      then ([Call_sendToDiscord message replyContext], Inl TypeError)
      else
        (let payload = messagePayload message replyContext;
             (log, response) = makeRequest E (PostMessage payload)
         in (Call_sendToDiscord message replyContext # log, Inr (delivered response))))"

section \<open>The webhook handler\<close>

datatype kind = kind_reaction | kind_message

text \<open>The object returned by \<open>handleGroupMeWebhook\<close>; \<open>None\<close> is a property not set.\<close>

record webhook_result =
  success :: bool
  ignored :: "bool option"
  rtype :: "kind option"
  hasReply :: "bool option"

text \<open>Lines 356 to 358: the message goes out with the reply context found.\<close>

definition handle_send ::
  "env \<Rightarrow> message \<Rightarrow> call list \<Rightarrow> message option
     \<Rightarrow> call list \<times> (error + webhook_result)" where
  "handle_send E data log replyContext =
     (let (log', r) = sendToDiscord E data replyContext
      in (log @ log',
          case r of
            Inl e \<Rightarrow> Inl e
          | Inr ok \<Rightarrow> Inr \<lparr> success = ok, ignored = None, rtype = Some kind_message,
                            hasReply = Some (replyContext \<noteq> None) \<rparr>))"

text \<open>Lines 337 to 358: a regular message.\<close>

definition handle_message :: "env \<Rightarrow> message \<Rightarrow> call list \<times> (error + webhook_result)" where
  "handle_message E data =
     (if truthy (GROUPME_ACCESS_TOKEN E) then
        (let (log1, r1) = findReplyContext E data
         in case r1 of
              Inl e \<Rightarrow> (log1, Inl e)
            | Inr (Some replyContext) \<Rightarrow> handle_send E data log1 (Some replyContext)
            | Inr None \<Rightarrow>
                (let (log2, r2) = getGroupMeMessages E (m_group_id data) (m_id data) 20
                 in case r2 of
                      Inl e \<Rightarrow> (log1 @ log2, Inl e)
                    | Inr recentMessages \<Rightarrow>
                        (let (log3, r3) = detectReplyFromText E data recentMessages
                         in case r3 of
                              Inl e \<Rightarrow> (log1 @ log2 @ log3, Inl e)
                            | Inr replyContext \<Rightarrow>
                                handle_send E data (log1 @ log2 @ log3) replyContext)))
      else handle_send E data [] None)"

definition handleGroupMeWebhook ::
  "env \<Rightarrow> message \<Rightarrow> call list \<times> (error + webhook_result)" where
  "handleGroupMeWebhook E data =
     (if m_sender_type data = Str (ascii ''bot'')
      then ([], Inr \<lparr> success = True, ignored = Some True, rtype = None, hasReply = None \<rparr>)
      else
        (case m_favorited_by data of
           None \<Rightarrow> handle_message E data
         | Some favorited_by \<Rightarrow>
             if length favorited_by > 0 then
               (let latestReaction = favorited_by ! (length favorited_by - 1);
                    reactionData = \<lparr> rd_favorited_by = latestReaction,
                                     rd_message_id = m_id data,
                                     rd_group_id = m_group_id data \<rparr>;
                    (log, r) = sendReactionToDiscord E reactionData data
                in (log,
                    case r of
                      Inl e \<Rightarrow> Inl e
                    | Inr ok \<Rightarrow> Inr \<lparr> success = ok, ignored = None, rtype = Some kind_reaction,
                                      hasReply = None \<rparr>))
             else handle_message E data))"

section \<open>The before-cursor contract of the history endpoint\<close>

text \<open>
  Section 4.1 of the specification, for the remote endpoint: against a conversation
  \<open>history\<close>, oldest message first, a request carrying \<open>before_id\<close> is answered, if
  with a window at all, with at most \<open>limit\<close> messages, all of them strictly before the
  first message of the conversation that has this id.
\<close>

definition honours_before :: "message list \<Rightarrow> (request \<Rightarrow> http_result) \<Rightarrow> bool" where
  "honours_before history net =
     (\<forall>g l b statusCode w.
        net (GetMessages g l (Some b)) = Resolved statusCode (Messages (Arr w))
        \<longrightarrow> length w \<le> l \<and> set w \<subseteq> set (takeWhile (\<lambda>m. m_id m \<noteq> Str b) history))"

section \<open>Example payloads and environments\<close>

text \<open>
  Concrete values for the runs below. \<open>lowerASCII\<close> stands in for \<open>toLowerCase\<close> in
  them: it agrees with it on ASCII text.
\<close>

definition lowerASCII :: "jsstring \<Rightarrow> jsstring" where
  "lowerASCII s = map (\<lambda>c. if 0x41 \<le> c \<and> c \<le> 0x5A then c + 0x20 else c) s"

definition example_env :: "(request \<Rightarrow> http_result) \<Rightarrow> jsval \<Rightarrow> env" where
  "example_env net token =
     \<lparr> network = net, toLowerCase = lowerASCII, GROUPME_ACCESS_TOKEN = token,
       DISCORD_WEBHOOK_URL_parses = True \<rparr>"

definition blank_message :: message where
  "blank_message =
     \<lparr> m_id = Undefined, m_group_id = Undefined, m_user_id = Undefined, m_name = Undefined,
       m_text = Undefined, m_avatar_url = Undefined, m_sender_type = Undefined,
       m_attachments = None, m_favorited_by = None \<rparr>"

definition reply_to :: "jsval \<Rightarrow> attachment" where
  "reply_to target =
     \<lparr> att_type = Str (ascii ''reply''), att_reply_id = target, att_base_reply_id = Undefined,
       att_url = Undefined \<rparr>"

definition network_down :: "request \<Rightarrow> http_result" where
  "network_down req = Rejected"

definition network_status :: "nat \<Rightarrow> request \<Rightarrow> http_result" where
  "network_status statusCode req = Resolved statusCode Unparsable"

text \<open>A network whose history endpoint answers every request with the same window.\<close>

definition network_history :: "message list \<Rightarrow> request \<Rightarrow> http_result" where
  "network_history ms req =
     (case req of
        GetMessages g l b \<Rightarrow> Resolved 200 (Messages (Arr ms))
      | PostMessage p \<Rightarrow> Resolved 204 Unparsable
      | PostReaction p \<Rightarrow> Resolved 204 Unparsable)"

text \<open>Scenario B of the specification: a reply attachment pointing at message 7.\<close>

definition scenarioB_original :: message where
  "scenarioB_original =
     blank_message \<lparr> m_id := Str (ascii ''7''), m_text := Str (ascii ''original'') \<rparr>"

definition scenarioB_message :: message where
  "scenarioB_message =
     blank_message \<lparr> m_id := Str (ascii ''9''),
                     m_attachments := Some [reply_to (Str (ascii ''7''))] \<rparr>"

definition reactor_with :: "jsval \<Rightarrow> reactor" where
  "reactor_with e = \<lparr> re_emoji = e, re_nickname = Undefined, re_image_url = Undefined \<rparr>"

text \<open>The object \<open>reactionData\<close> of lines 325 to 329, for the reactor chosen.\<close>

definition reaction_of :: "message \<Rightarrow> reactor \<Rightarrow> reactionData" where
  "reaction_of data r =
     \<lparr> rd_favorited_by = r, rd_message_id = m_id data, rd_group_id = m_group_id data \<rparr>"

text \<open>A payload from a bot that also carries text, a reply attachment and a reactor.\<close>

definition bot_payload :: message where
  "bot_payload =
     blank_message \<lparr> m_id := Str (ascii ''5''), m_text := Str (ascii ''@Alice lol''),
                     m_sender_type := Str (ascii ''bot''),
                     m_attachments := Some [reply_to (Str (ascii ''7''))],
                     m_favorited_by := Some [reactor_with (Str [0xD83D, 0xDC4D])] \<rparr>"

definition three_reactors :: message where
  "three_reactors =
     blank_message \<lparr> m_id := Str (ascii ''5''), m_text := Str (ascii ''hi''),
                     m_favorited_by := Some [reactor_with (Str [0xD83D, 0xDC4D]),
                                             reactor_with (Str [0x2764]),
                                             reactor_with Undefined] \<rparr>"

definition empty_text_message :: message where
  "empty_text_message =
     blank_message \<lparr> m_id := Str (ascii ''5''), m_text := Str [],
                     m_favorited_by := Some [reactor_with (Str [0xD83D, 0xDC4D])] \<rparr>"

text \<open>Scenario C of the specification: a thumbs-up on a text of 120 code units.\<close>

definition long_text_message :: message where
  "long_text_message =
     blank_message \<lparr> m_id := Str (ascii ''5''), m_text := Str (replicate 120 0x61),
                     m_favorited_by := Some [reactor_with (Str [0xD83D, 0xDC4D])] \<rparr>"

text \<open>An endpoint that keeps the contract; without a cursor it answers with the latest messages.\<close>

definition history_api :: "message list \<Rightarrow> request \<Rightarrow> http_result" where
  "history_api history req =
     (case req of
        GetMessages g l None \<Rightarrow> Resolved 200 (Messages (Arr (take l (rev history))))
      | GetMessages g l (Some b) \<Rightarrow>
          Resolved 200
            (Messages (Arr (take l (rev (takeWhile (\<lambda>m. m_id m \<noteq> Str b) history)))))
      | PostMessage p \<Rightarrow> Resolved 204 Unparsable
      | PostReaction p \<Rightarrow> Resolved 204 Unparsable)"

text \<open>Scenario A of the specification: a mention of Alice, whose message is in the window.\<close>

definition scenarioA_alice :: message where
  "scenarioA_alice =
     blank_message \<lparr> m_id := Str (ascii ''3''), m_user_id := Str (ascii ''u1''),
                     m_name := Str (ascii ''Alice B''), m_text := Str (ascii ''hi'') \<rparr>"

definition scenarioA_message :: message where
  "scenarioA_message =
     blank_message \<lparr> m_id := Str (ascii ''5''), m_user_id := Str (ascii ''u2''),
                     m_text := Str (ascii ''@Alice lol''), m_attachments := Some [] \<rparr>"


definition fallthrough_message :: message where
  "fallthrough_message =
     blank_message \<lparr> m_id := Str (ascii ''5''), m_user_id := Str (ascii ''u2''),
                     m_text := Str (ascii ''@zed'' @ [0x0A] @ ascii ''> HI'') \<rparr>"

definition empty_id_message :: message where
  "empty_id_message =
     blank_message \<lparr> m_id := Str [], m_user_id := Str (ascii ''u2''),
                     m_text := Str (ascii ''@Alice lol'') \<rparr>"

text \<open>The same payload without an \<open>id\<close> property.\<close>

definition missing_id_message :: message where
  "missing_id_message =
     blank_message \<lparr> m_user_id := Str (ascii ''u2''), m_text := Str (ascii ''@Alice lol'') \<rparr>"

section \<open>Auxiliary facts\<close>

lemma find_first:
  "P x \<Longrightarrow> \<forall>y\<in>set pre. \<not> P y \<Longrightarrow> find P (pre @ x # post) = Some x"
  by (induction pre) auto

lemma find_none: "\<forall>y\<in>set xs. \<not> P y \<Longrightarrow> find P xs = None"
  by (induction xs) auto

lemma getGroupMeMessages_log:
  "fst (getGroupMeMessages E g b l)
     = [Call_getGroupMeMessages g b l, Call_makeRequest (messages_path g b l)]"
  by (simp add: getGroupMeMessages_def makeRequest_def)

lemma handle_message_no_token:
  "\<not> truthy (GROUPME_ACCESS_TOKEN E) \<Longrightarrow>
     handle_message E data =
       (if DISCORD_WEBHOOK_URL_parses E
        then ([Call_sendToDiscord data None,
               Call_makeRequest (PostMessage (messagePayload data None))],
              Inr \<lparr> success = delivered (network E (PostMessage (messagePayload data None))),
                    ignored = None, rtype = Some kind_message, hasReply = Some False \<rparr>)
        else ([Call_sendToDiscord data None], Inl TypeError))"
  by (simp add: handle_message_def handle_send_def sendToDiscord_def makeRequest_def Let_def)

lemma handle_message_no_reaction_call:
  "Call_sendReactionToDiscord rd m \<notin> set (fst (handle_message E data))"
  by (auto simp: handle_message_def handle_send_def sendToDiscord_def findReplyContext_def
        getGroupMeMessages_def makeRequest_def detectReplyFromText_def Let_def split_beta
      split: option.splits sum.splits if_splits)

lemma handle_message_kind:
  "snd (handle_message E data) = Inr r \<Longrightarrow> rtype r = Some kind_message"
  by (auto simp: handle_message_def handle_send_def sendToDiscord_def findReplyContext_def
        getGroupMeMessages_def makeRequest_def detectReplyFromText_def Let_def split_beta
      split: option.splits sum.splits if_splits)

lemma handle_reaction:
  "m_sender_type data \<noteq> Str (ascii ''bot'') \<Longrightarrow> m_favorited_by data = Some fs \<Longrightarrow> fs \<noteq> [] \<Longrightarrow>
   rd = \<lparr> rd_favorited_by = fs ! (length fs - 1), rd_message_id = m_id data,
          rd_group_id = m_group_id data \<rparr> \<Longrightarrow>
     handleGroupMeWebhook E data =
       (if DISCORD_WEBHOOK_URL_parses E
        then ([Call_sendReactionToDiscord rd data,
               Call_makeRequest (PostReaction (reactionPayload rd data))],
              Inr \<lparr> success = delivered (network E (PostReaction (reactionPayload rd data))),
                    ignored = None, rtype = Some kind_reaction, hasReply = None \<rparr>)
        else ([Call_sendReactionToDiscord rd data], Inl TypeError))"
  by (simp add: handleGroupMeWebhook_def sendReactionToDiscord_def makeRequest_def Let_def)

lemma handle_not_reaction:
  "m_sender_type data \<noteq> Str (ascii ''bot'') \<Longrightarrow>
   m_favorited_by data = None \<or> m_favorited_by data = Some [] \<Longrightarrow>
     handleGroupMeWebhook E data = handle_message E data"
  by (auto simp: handleGroupMeWebhook_def)

text \<open>The three patterns on sample texts.\<close>

lemma match_mention_examples:
  "match_mention (ascii ''@Alice lol'') = Some (ascii ''Alice'')"
  "match_mention (ascii ''a@ @@b_1-c'') = Some (ascii ''b_1'')"
  "match_mention (ascii ''mail@'') = None"
  by (simp_all add: isWordChar_def ascii_def)

lemma match_quote_examples:
  "match_quote (ascii ''> hello'') = Some (ascii ''hello'')"
  "match_quote (ascii ''x> hello'') = None"
  "match_quote (ascii ''x'' @ [0x0A] @ ascii ''>   '') = Some (ascii '' '')"
  "match_quote (ascii ''>'' @ [0x0A, 0x0A] @ ascii ''abc'' @ [0x0A] @ ascii ''d'') = Some (ascii ''abc'')"
  by (simp_all add: match_quote_def quote_at_def isWhiteSpace_def isLineTerminator_def isDot_def
        ascii_def)

lemma match_colon_examples:
  "match_colon (ascii ''Bob:  '') = Some (ascii ''Bob'')"
  "match_colon (ascii '':'') = None"
  "match_colon (ascii ''a:b: '' @ [0x0A] @ ascii ''x'') = Some (ascii ''a:b'')"
  "match_colon (ascii ''a:b'' @ [0x0A] @ ascii ''xx: y'' @ [0x0A] @ ascii ''q::'') = Some (ascii ''q:'')"
  by (simp_all add: match_colon_def colon_at_def isWhiteSpace_def isLineTerminator_def isDot_def
        ascii_def)






lemma startsWith_iff: "startsWith s t \<longleftrightarrow> (\<exists>b. s = t @ b)"
  unfolding startsWith_def by (metis append_eq_conv_conj append_take_drop_id)

lemma js_includes_iff: "js_includes s t \<longleftrightarrow> (\<exists>a b. s = a @ t @ b)"
proof (induction s)
  case Nil
  show ?case by simp
next
  case (Cons c cs)
  have "(\<exists>a b. c # cs = a @ t @ b) \<longleftrightarrow> (\<exists>b. c # cs = t @ b) \<or> (\<exists>a b. cs = a @ t @ b)"
  proof
    assume "\<exists>a b. c # cs = a @ t @ b"
    then obtain a b where ab: "c # cs = a @ t @ b" by blast
    show "(\<exists>b. c # cs = t @ b) \<or> (\<exists>a b. cs = a @ t @ b)"
    proof (cases a)
      case Nil
      with ab show ?thesis by auto
    next
      case (Cons d a')
      with ab have "cs = a' @ t @ b" by simp
      then show ?thesis by blast
    qed
  next
    assume "(\<exists>b. c # cs = t @ b) \<or> (\<exists>a b. cs = a @ t @ b)"
    then show "\<exists>a b. c # cs = a @ t @ b"
    proof
      assume "\<exists>b. c # cs = t @ b"
      then obtain b where "c # cs = [] @ t @ b" by auto
      then show ?thesis by blast
    next
      assume "\<exists>a b. cs = a @ t @ b"
      then obtain a b where "c # cs = (c # a) @ t @ b" by auto
      then show ?thesis by blast
    qed
  qed
  with Cons show ?case by (simp add: startsWith_iff)
qed

lemma takeWhile_nil_hd: "takeWhile P xs = [] \<Longrightarrow> xs \<noteq> [] \<Longrightarrow> \<not> P (hd xs)"
  by (cases xs) (auto split: if_splits)

lemma match_mention_sound:
  "match_mention s = Some g \<Longrightarrow>
     \<exists>pre post. s = pre @ 0x40 # g @ post \<and> g \<noteq> [] \<and> (\<forall>c\<in>set g. isWordChar c)
       \<and> (post = [] \<or> \<not> isWordChar (hd post))
       \<and> (\<forall>p q. pre = p @ 0x40 # q \<longrightarrow> \<not> isWordChar (hd (q @ [0x40])))"
proof (induction s)
  case Nil
  then show ?case by simp
next
  case (Cons c cs)
  show ?case
  proof (cases "c = 0x40 \<and> takeWhile isWordChar cs \<noteq> []")
    case True
    with Cons.prems have g: "g = takeWhile isWordChar cs" by simp
    have "c # cs = [] @ 0x40 # g @ dropWhile isWordChar cs"
      using True g by simp
    moreover have "dropWhile isWordChar cs = [] \<or> \<not> isWordChar (hd (dropWhile isWordChar cs))"
      using hd_dropWhile [of isWordChar cs] by blast
    moreover have "\<forall>c\<in>set g. isWordChar c"
      using g by (auto dest: set_takeWhileD)
    moreover have "g \<noteq> []" using True g by simp
    ultimately show ?thesis by blast
  next
    case False
    with Cons.prems have "match_mention cs = Some g" by auto
    from Cons.IH [OF this] obtain pre post where
      h: "cs = pre @ 0x40 # g @ post" "g \<noteq> []" "\<forall>c\<in>set g. isWordChar c"
         "post = [] \<or> \<not> isWordChar (hd post)"
         "\<forall>p q. pre = p @ 0x40 # q \<longrightarrow> \<not> isWordChar (hd (q @ [0x40]))"
      by blast
    have "\<forall>p q. c # pre = p @ 0x40 # q \<longrightarrow> \<not> isWordChar (hd (q @ [0x40]))"
    proof (intro allI impI)
      fix p q
      assume e: "c # pre = p @ 0x40 # q"
      show "\<not> isWordChar (hd (q @ [0x40]))"
      proof (cases p)
        case Nil
        with e have c: "c = 0x40" and q: "q = pre" by auto
        from c False have "takeWhile isWordChar cs = []" by simp
        moreover have "cs \<noteq> []" using h(1) by simp
        ultimately have "\<not> isWordChar (hd cs)" by (rule takeWhile_nil_hd)
        moreover have "hd cs = hd (pre @ [0x40])" using h(1) by (cases pre) auto
        ultimately show ?thesis using q by simp
      next
        case (Cons d p')
        with e have "pre = p' @ 0x40 # q" by simp
        with h(5) show ?thesis by blast
      qed
    qed
    moreover have "c # cs = (c # pre) @ 0x40 # g @ post" using h(1) by simp
    ultimately show ?thesis using h(2,3,4) by blast
  qed
qed

lemma takeWhile_hd_nil: "xs = [] \<or> \<not> P (hd xs) \<Longrightarrow> takeWhile P xs = []"
  by (cases xs) auto

lemma match_mention_complete:
  "g \<noteq> [] \<Longrightarrow> \<forall>c\<in>set g. isWordChar c \<Longrightarrow> post = [] \<or> \<not> isWordChar (hd post) \<Longrightarrow>
   \<forall>p q. pre = p @ 0x40 # q \<longrightarrow> \<not> isWordChar (hd (q @ [0x40])) \<Longrightarrow>
     match_mention (pre @ 0x40 # g @ post) = Some g"
proof (induction pre)
  case Nil
  then show ?case by (simp add: takeWhile_hd_nil)
next
  case (Cons c pre)
  have tail: "\<forall>p q. pre = p @ 0x40 # q \<longrightarrow> \<not> isWordChar (hd (q @ [0x40]))"
  proof (intro allI impI)
    fix p q
    assume "pre = p @ 0x40 # q"
    then have "c # pre = (c # p) @ 0x40 # q" by simp
    with Cons.prems(4) show "\<not> isWordChar (hd (q @ [0x40]))" by blast
  qed
  have rec: "match_mention (pre @ 0x40 # g @ post) = Some g"
    using Cons.IH [OF Cons.prems(1,2,3) tail] .
  show ?case
  proof (cases "c = 0x40")
    case True
    then have "c # pre = [] @ 0x40 # pre" by simp
    with Cons.prems(4) have "\<not> isWordChar (hd (pre @ [0x40]))" by blast
    moreover have "hd (pre @ 0x40 # g @ post) = hd (pre @ [0x40])" by (cases pre) auto
    ultimately have "takeWhile isWordChar (pre @ 0x40 # g @ post) = []"
      by (cases "pre @ 0x40 # g @ post") auto
    with rec show ?thesis by simp
  next
    case False
    with rec show ?thesis by simp
  qed
qed

lemma pattern_loop_two:
  "pattern_loop E message txt (Arr w) [p1, p2] = Inr
     (case (case p1 txt of None \<Rightarrow> None
            | Some g \<Rightarrow> find (quote_pred E message (toLowerCase E g)) w) of
        Some x \<Rightarrow> Some x
      | None \<Rightarrow> (case p2 txt of None \<Rightarrow> None
                 | Some g \<Rightarrow> find (quote_pred E message (toLowerCase E g)) w))"
  by (simp split: option.splits)

lemma honours_history_api: "honours_before history (history_api history)"
  by (auto simp: honours_before_def history_api_def dest: in_set_takeD)

lemma findReplyContext_no_detect:
  "Call_detectReplyFromText m recent \<notin> set (fst (findReplyContext E data))"
  by (auto simp: findReplyContext_def getGroupMeMessages_def makeRequest_def split_beta
      split: option.splits)

lemma sendToDiscord_no_detect:
  "Call_detectReplyFromText m recent \<notin> set (fst (sendToDiscord E data rc))"
  by (auto simp: sendToDiscord_def makeRequest_def Let_def)

lemma handle_message_detect_call:
  "Call_detectReplyFromText m recent \<in> set (fst (handle_message E data)) \<Longrightarrow>
     m = data \<and> snd (getGroupMeMessages E (m_group_id data) (m_id data) 20) = Inr recent
     \<and> Call_getGroupMeMessages (m_group_id data) (m_id data) 20 \<in> set (fst (handle_message E data))
     \<and> Call_makeRequest (messages_path (m_group_id data) (m_id data) 20)
         \<in> set (fst (handle_message E data))"
  using findReplyContext_no_detect [of m recent E data]
        sendToDiscord_no_detect [of m recent E data]
        getGroupMeMessages_log [of E "m_group_id data" "m_id data" 20]
  by (auto simp: handle_message_def handle_send_def detectReplyFromText_def split_beta Let_def
      split: if_splits sum.splits option.splits)

lemma handle_detect_call:
  "Call_detectReplyFromText m recent \<in> set (fst (handleGroupMeWebhook E data)) \<Longrightarrow>
     Call_detectReplyFromText m recent \<in> set (fst (handle_message E data))
     \<and> fst (handleGroupMeWebhook E data) = fst (handle_message E data)"
  by (auto simp: handleGroupMeWebhook_def sendReactionToDiscord_def makeRequest_def Let_def
      split: if_splits option.splits)

lemma getGroupMeMessages_window:
  "honours_before history (network E) \<Longrightarrow> truthy beforeId \<Longrightarrow>
   snd (getGroupMeMessages E g beforeId l) = Inr (Arr w) \<Longrightarrow>
     length w \<le> l \<and> set w \<subseteq> set (takeWhile (\<lambda>m. m_id m \<noteq> beforeId) history)"
proof -
  assume h: "honours_before history (network E)" and t: "truthy beforeId"
    and r: "snd (getGroupMeMessages E g beforeId l) = Inr (Arr w)"
  from t obtain b where b: "beforeId = Str b" "b \<noteq> []"
    by (cases beforeId) auto
  show ?thesis
  proof (cases "w = []")
    case True
    then show ?thesis by simp
  next
    case False
    with r b obtain statusCode where
      "network E (GetMessages g l (Some b)) = Resolved statusCode (Messages (Arr w))"
      by (cases "network E (GetMessages g l (Some b))")
         (auto simp: getGroupMeMessages_def makeRequest_def messages_path_def
               split: if_splits body.splits)
    with h b show ?thesis
      unfolding honours_before_def by blast
  qed
qed

lemma messages_path_falsy: "\<not> truthy beforeId \<Longrightarrow> messages_path g beforeId l = GetMessages g l None"
  by (cases beforeId) (auto simp: messages_path_def)

lemma handle_message_no_cursor:
  "\<not> truthy (m_id data) \<Longrightarrow>
     Call_makeRequest (GetMessages g l (Some b)) \<notin> set (fst (handle_message E data))"
  by (auto simp: handle_message_def handle_send_def sendToDiscord_def findReplyContext_def
        getGroupMeMessages_def makeRequest_def detectReplyFromText_def messages_path_falsy
        Let_def split_beta
      split: option.splits sum.splits if_splits)

lemma handle_no_cursor:
  "\<not> truthy (m_id data) \<Longrightarrow>
     Call_makeRequest (GetMessages g l (Some b)) \<notin> set (fst (handleGroupMeWebhook E data))"
  using handle_message_no_cursor [of data g l b E]
  by (auto simp: handleGroupMeWebhook_def sendReactionToDiscord_def makeRequest_def Let_def
      split: option.splits if_splits)

section \<open>Structured reply resolution\<close>

text \<open>
  Claim C1. A message without attachments, or with no attachment of type \<open>reply\<close>, makes
  \<open>findReplyContext\<close> return null with no call but its own: no history is fetched. A message
  whose first \<open>reply\<close> attachment is \<open>replyAttachment\<close> makes it call
  \<open>getGroupMeMessages(message.group_id, message.id, 50)\<close>, once, and return the first
  entry of the fetched window whose id equals \<open>reply_id\<close> or \<open>base_reply_id\<close> of that
  attachment, or nothing when the window has no such entry.
\<close>

theorem findReplyContext_contract:
  "((m_attachments message = None
      \<or> (\<exists>atts. m_attachments message = Some atts
            \<and> (\<forall>att\<in>set atts. att_type att \<noteq> Str (ascii ''reply''))))
     \<longrightarrow> findReplyContext E message = ([Call_findReplyContext message], Inr None))
   \<and> (\<forall>pre replyAttachment post w.
         m_attachments message = Some (pre @ replyAttachment # post)
         \<and> att_type replyAttachment = Str (ascii ''reply'')
         \<and> (\<forall>att\<in>set pre. att_type att \<noteq> Str (ascii ''reply''))
         \<and> snd (getGroupMeMessages E (m_group_id message) (m_id message) 50) = Inr (Arr w)
       \<longrightarrow> fst (findReplyContext E message)
             = [Call_findReplyContext message,
                Call_getGroupMeMessages (m_group_id message) (m_id message) 50,
                Call_makeRequest (messages_path (m_group_id message) (m_id message) 50)]
           \<and> snd (findReplyContext E message)
             = Inr (find (\<lambda>msg. m_id msg = att_reply_id replyAttachment
                               \<or> m_id msg = att_base_reply_id replyAttachment) w))"
proof (intro conjI impI allI)
  assume "m_attachments message = None
      \<or> (\<exists>atts. m_attachments message = Some atts
            \<and> (\<forall>att\<in>set atts. att_type att \<noteq> Str (ascii ''reply'')))"
  then show "findReplyContext E message = ([Call_findReplyContext message], Inr None)"
    by (auto simp: findReplyContext_def find_none)
next
  fix pre replyAttachment post w
  assume h: "m_attachments message = Some (pre @ replyAttachment # post)
         \<and> att_type replyAttachment = Str (ascii ''reply'')
         \<and> (\<forall>att\<in>set pre. att_type att \<noteq> Str (ascii ''reply''))
         \<and> snd (getGroupMeMessages E (m_group_id message) (m_id message) 50) = Inr (Arr w)"
  then have f: "find (\<lambda>att. att_type att = Str (ascii ''reply'')) (pre @ replyAttachment # post)
                  = Some replyAttachment"
    by (intro find_first) auto
  from h f show "fst (findReplyContext E message)
             = [Call_findReplyContext message,
                Call_getGroupMeMessages (m_group_id message) (m_id message) 50,
                Call_makeRequest (messages_path (m_group_id message) (m_id message) 50)]"
    using getGroupMeMessages_log [of E "m_group_id message" "m_id message" 50]
    by (simp add: findReplyContext_def split_beta)
  from h f show "snd (findReplyContext E message)
             = Inr (find (\<lambda>msg. m_id msg = att_reply_id replyAttachment
                               \<or> m_id msg = att_base_reply_id replyAttachment) w)"
    by (simp add: findReplyContext_def split_beta)
qed

theorem findReplyContext_contract_witness:
  "m_attachments blank_message = None
   \<and> findReplyContext (example_env network_down (Str (ascii ''token''))) blank_message
       = ([Call_findReplyContext blank_message], Inr None)
   \<and> m_attachments scenarioB_message = Some ([] @ reply_to (Str (ascii ''7'')) # [])
   \<and> snd (getGroupMeMessages
            (example_env (network_history [scenarioB_original]) (Str (ascii ''token'')))
            (m_group_id scenarioB_message) (m_id scenarioB_message) 50)
       = Inr (Arr [scenarioB_original])
   \<and> snd (findReplyContext
            (example_env (network_history [scenarioB_original]) (Str (ascii ''token'')))
            scenarioB_message)
       = Inr (Some scenarioB_original)"
  using findReplyContext_contract
          [of blank_message "example_env network_down (Str (ascii ''token''))"]
        findReplyContext_contract
          [of scenarioB_message
              "example_env (network_history [scenarioB_original]) (Str (ascii ''token''))"]
  by (simp add: blank_message_def scenarioB_message_def scenarioB_original_def reply_to_def
        example_env_def network_history_def getGroupMeMessages_def makeRequest_def
        messages_path_def findReplyContext_def ascii_def)

section \<open>Failure of the history fetch\<close>

text \<open>
  Claim C6. For every group id, cursor and limit, \<open>getGroupMeMessages\<close> returns a value
  and throws nothing; when the request is rejected (transport error) or resolves with a
  status code other than 200, which covers every non-success status, it returns the empty
  array, the same in both cases.
\<close>

theorem getGroupMeMessages_fails_soft:
  "(\<exists>v. snd (getGroupMeMessages E groupId beforeId limit) = Inr v)
   \<and> (network E (messages_path groupId beforeId limit) = Rejected
        \<longrightarrow> snd (getGroupMeMessages E groupId beforeId limit) = Inr (Arr []))
   \<and> (\<forall>statusCode b. network E (messages_path groupId beforeId limit) = Resolved statusCode b
        \<and> statusCode \<noteq> 200
        \<longrightarrow> snd (getGroupMeMessages E groupId beforeId limit) = Inr (Arr []))"
  by (auto simp: getGroupMeMessages_def makeRequest_def split: sum.splits)

theorem getGroupMeMessages_fails_soft_witness:
  "network (example_env network_down Undefined)
       (messages_path (Str (ascii ''g'')) (Str (ascii ''5'')) 50) = Rejected
   \<and> snd (getGroupMeMessages (example_env network_down Undefined)
            (Str (ascii ''g'')) (Str (ascii ''5'')) 50) = Inr (Arr [])
   \<and> network (example_env (network_status 500) Undefined)
       (messages_path (Str (ascii ''g'')) Null 20) = Resolved 500 Unparsable
   \<and> (500::nat) \<noteq> 200
   \<and> snd (getGroupMeMessages (example_env (network_status 500) Undefined)
            (Str (ascii ''g'')) Null 20) = Inr (Arr [])"
  using getGroupMeMessages_fails_soft
          [of "example_env network_down Undefined" "Str (ascii ''g'')" "Str (ascii ''5'')" 50]
        getGroupMeMessages_fails_soft
          [of "example_env (network_status 500) Undefined" "Str (ascii ''g'')" Null 20]
  by (simp add: example_env_def network_down_def network_status_def)

section \<open>Emoji conversion\<close>

text \<open>
  Claim C9. For every glyph \<open>e\<close>, that is every string that does not name a member
  inherited from \<open>Object.prototype\<close>, \<open>convertReactionEmoji(e)\<close> is \<open>e\<close>, except that
  the bare heart U+2764 becomes U+2764 U+FE0F; converting the result again changes
  nothing, and a glyph that is no key of \<open>emojiMap\<close> passes through unchanged.
\<close>

theorem convertReactionEmoji_identity_except_heart:
  "e \<notin> set Object_prototype \<Longrightarrow>
     convertReactionEmoji e = Glyph (if e = [0x2764] then [0x2764, 0xFE0F] else e)
     \<and> convertReactionEmoji (if e = [0x2764] then [0x2764, 0xFE0F] else e)
         = Glyph (if e = [0x2764] then [0x2764, 0xFE0F] else e)"
  by (auto simp: convertReactionEmoji_def emojiMap_def Object_prototype_def ascii_def)

theorem convertReactionEmoji_identity_except_heart_witness:
  "[0x2764] \<notin> set Object_prototype
   \<and> convertReactionEmoji [0x2764] = Glyph [0x2764, 0xFE0F]
   \<and> convertReactionEmoji [0x2764, 0xFE0F] = Glyph [0x2764, 0xFE0F]
   \<and> [0xD83C, 0xDF89] \<notin> set Object_prototype
   \<and> convertReactionEmoji [0xD83C, 0xDF89] = Glyph [0xD83C, 0xDF89]"
  using convertReactionEmoji_identity_except_heart [of "[0x2764]"]
        convertReactionEmoji_identity_except_heart [of "[0xD83C, 0xDF89]"]
  by (simp add: Object_prototype_def ascii_def)

section \<open>The webhook handler: bots, reactions, messages\<close>

text \<open>
  Claim C4, as stated, at a bot payload: the handler reports \<open>success: true\<close>, not
  false.
\<close>

theorem bot_sender_reports_success:
  "snd (handleGroupMeWebhook (example_env (network_history [scenarioB_original]) (Str (ascii ''token'')))
          bot_payload)
     = Inr \<lparr> success = True, ignored = Some True, rtype = None, hasReply = None \<rparr>"
  by (simp add: handleGroupMeWebhook_def bot_payload_def blank_message_def)

text \<open>
  Claim C4, amended. For every payload with \<open>sender_type\<close> \<open>bot\<close>, whatever its
  attachments, reactors and text, \<open>handleGroupMeWebhook\<close> returns
  \<open>{success: true, ignored: true}\<close> at once: the log of calls is empty, so nothing is
  fetched and nothing is delivered.
\<close>

theorem bot_sender_short_circuit:
  "m_sender_type data = Str (ascii ''bot'') \<Longrightarrow>
     handleGroupMeWebhook E data
       = ([], Inr \<lparr> success = True, ignored = Some True, rtype = None, hasReply = None \<rparr>)"
  by (simp add: handleGroupMeWebhook_def)

theorem bot_sender_short_circuit_witness:
  "m_sender_type bot_payload = Str (ascii ''bot'')
   \<and> m_attachments bot_payload = Some [reply_to (Str (ascii ''7''))]
   \<and> m_favorited_by bot_payload = Some [reactor_with (Str [0xD83D, 0xDC4D])]
   \<and> handleGroupMeWebhook (example_env (network_history [scenarioB_original]) (Str (ascii ''token'')))
        bot_payload
       = ([], Inr \<lparr> success = True, ignored = Some True, rtype = None, hasReply = None \<rparr>)"
  using bot_sender_short_circuit
          [of bot_payload "example_env (network_history [scenarioB_original]) (Str (ascii ''token''))"]
  by (simp add: bot_payload_def blank_message_def)

text \<open>
  Claim C5. For a payload that is neither from a bot nor a reaction, with no access token
  configured, \<open>handleGroupMeWebhook\<close> calls \<open>sendToDiscord(data, null)\<close> and nothing
  else: \<open>findReplyContext\<close>, \<open>detectReplyFromText\<close> and \<open>getGroupMeMessages\<close> are not
  called, even when the payload has a reply attachment. It returns type \<open>message\<close> with
  \<open>hasReply: false\<close> and the outcome of the delivery as \<open>success\<close> (when
  \<open>DISCORD_WEBHOOK_URL\<close> is no URL, \<open>sendToDiscord\<close> throws instead).
\<close>

theorem no_token_skips_reply_resolution:
  "m_sender_type data \<noteq> Str (ascii ''bot'') \<Longrightarrow>
   m_favorited_by data = None \<or> m_favorited_by data = Some [] \<Longrightarrow>
   \<not> truthy (GROUPME_ACCESS_TOKEN E) \<Longrightarrow>
     handleGroupMeWebhook E data =
       (if DISCORD_WEBHOOK_URL_parses E
        then ([Call_sendToDiscord data None,
               Call_makeRequest (PostMessage (messagePayload data None))],
              Inr \<lparr> success = delivered (network E (PostMessage (messagePayload data None))),
                    ignored = None, rtype = Some kind_message, hasReply = Some False \<rparr>)
        else ([Call_sendToDiscord data None], Inl TypeError))
     \<and> (\<forall>m. Call_findReplyContext m \<notin> set (fst (handleGroupMeWebhook E data)))
     \<and> (\<forall>m w. Call_detectReplyFromText m w \<notin> set (fst (handleGroupMeWebhook E data)))
     \<and> (\<forall>g b l. Call_getGroupMeMessages g b l \<notin> set (fst (handleGroupMeWebhook E data)))"
proof -
  assume a: "m_sender_type data \<noteq> Str (ascii ''bot'')"
    and b: "m_favorited_by data = None \<or> m_favorited_by data = Some []"
    and c: "\<not> truthy (GROUPME_ACCESS_TOKEN E)"
  from a b have "handleGroupMeWebhook E data = handle_message E data"
    by (auto simp: handleGroupMeWebhook_def)
  with c show ?thesis
    by (simp add: handle_message_no_token)
qed

theorem no_token_skips_reply_resolution_witness:
  "m_sender_type scenarioB_message \<noteq> Str (ascii ''bot'')
   \<and> m_favorited_by scenarioB_message = None
   \<and> m_attachments scenarioB_message = Some [reply_to (Str (ascii ''7''))]
   \<and> \<not> truthy (GROUPME_ACCESS_TOKEN (example_env (network_history [scenarioB_original]) Undefined))
   \<and> handleGroupMeWebhook (example_env (network_history [scenarioB_original]) Undefined)
        scenarioB_message
       = ([Call_sendToDiscord scenarioB_message None,
           Call_makeRequest (PostMessage (messagePayload scenarioB_message None))],
          Inr \<lparr> success = True, ignored = None, rtype = Some kind_message,
                hasReply = Some False \<rparr>)"
  using no_token_skips_reply_resolution [of scenarioB_message "example_env (network_history [scenarioB_original]) Undefined"]
  by (simp add: scenarioB_message_def blank_message_def example_env_def network_history_def)

text \<open>
  Claim C3. For a payload that is not from a bot: \<open>sendReactionToDiscord\<close> is called, and
  the handler's result has type \<open>reaction\<close>, exactly when \<open>favorited_by\<close> is a non-empty
  array; the reaction is then built from its entry \<open>length - 1\<close>, the last one, whatever
  the length. An entry without \<open>emoji\<close> gives the heart U+2764 U+FE0F, one without
  \<open>nickname\<close> gives the name \<open>Someone\<close>.
\<close>

theorem reaction_built_from_last_reactor:
  "m_sender_type data \<noteq> Str (ascii ''bot'') \<Longrightarrow>
     ((\<exists>rd m. Call_sendReactionToDiscord rd m \<in> set (fst (handleGroupMeWebhook E data)))
        \<longleftrightarrow> (\<exists>fs. m_favorited_by data = Some fs \<and> fs \<noteq> []))
   \<and> (\<forall>r. snd (handleGroupMeWebhook E data) = Inr r \<longrightarrow>
          (rtype r = Some kind_reaction \<longleftrightarrow> (\<exists>fs. m_favorited_by data = Some fs \<and> fs \<noteq> [])))
   \<and> (\<forall>fs. m_favorited_by data = Some fs \<and> fs \<noteq> [] \<longrightarrow>
          handleGroupMeWebhook E data =
            (if DISCORD_WEBHOOK_URL_parses E
             then ([Call_sendReactionToDiscord
                      \<lparr> rd_favorited_by = fs ! (length fs - 1), rd_message_id = m_id data,
                        rd_group_id = m_group_id data \<rparr> data,
                    Call_makeRequest (PostReaction (reactionPayload
                      \<lparr> rd_favorited_by = fs ! (length fs - 1), rd_message_id = m_id data,
                        rd_group_id = m_group_id data \<rparr> data))],
                   Inr \<lparr> success = delivered (network E (PostReaction (reactionPayload
                           \<lparr> rd_favorited_by = fs ! (length fs - 1), rd_message_id = m_id data,
                             rd_group_id = m_group_id data \<rparr> data))),
                         ignored = None, rtype = Some kind_reaction, hasReply = None \<rparr>)
             else ([Call_sendReactionToDiscord
                      \<lparr> rd_favorited_by = fs ! (length fs - 1), rd_message_id = m_id data,
                        rd_group_id = m_group_id data \<rparr> data], Inl TypeError))
          \<and> fs ! (length fs - 1) = last fs)
   \<and> (\<forall>rd. re_emoji (rd_favorited_by rd) = Undefined \<longrightarrow>
          dr_emoji (reactionPayload rd data) = Glyph [0x2764, 0xFE0F])
   \<and> (\<forall>rd. re_nickname (rd_favorited_by rd) = Undefined \<longrightarrow>
          dr_reacterName (reactionPayload rd data) = ascii ''Someone'')"
proof -
  assume nb: "m_sender_type data \<noteq> Str (ascii ''bot'')"
  have heart: "convertReactionEmoji [0x2764, 0xFE0F] = Glyph [0x2764, 0xFE0F]"
    by (simp add: convertReactionEmoji_def emojiMap_def Object_prototype_def ascii_def)
  have defaults:
    "(\<forall>rd. re_emoji (rd_favorited_by rd) = Undefined \<longrightarrow>
          dr_emoji (reactionPayload rd data) = Glyph [0x2764, 0xFE0F])
     \<and> (\<forall>rd. re_nickname (rd_favorited_by rd) = Undefined \<longrightarrow>
          dr_reacterName (reactionPayload rd data) = ascii ''Someone'')"
    by (simp add: reactionPayload_def heart Let_def)
  show ?thesis
  proof (cases "\<exists>fs. m_favorited_by data = Some fs \<and> fs \<noteq> []")
    case True
    then obtain fs where fs: "m_favorited_by data = Some fs" "fs \<noteq> []" by blast
    have "handleGroupMeWebhook E data =
       (if DISCORD_WEBHOOK_URL_parses E
        then ([Call_sendReactionToDiscord \<lparr> rd_favorited_by = fs ! (length fs - 1), rd_message_id = m_id data,
          rd_group_id = m_group_id data \<rparr> data,
               Call_makeRequest (PostReaction (reactionPayload \<lparr> rd_favorited_by = fs ! (length fs - 1), rd_message_id = m_id data,
          rd_group_id = m_group_id data \<rparr> data))],
              Inr \<lparr> success = delivered (network E (PostReaction (reactionPayload \<lparr> rd_favorited_by = fs ! (length fs - 1), rd_message_id = m_id data,
          rd_group_id = m_group_id data \<rparr> data))),
                    ignored = None, rtype = Some kind_reaction, hasReply = None \<rparr>)
        else ([Call_sendReactionToDiscord \<lparr> rd_favorited_by = fs ! (length fs - 1), rd_message_id = m_id data,
          rd_group_id = m_group_id data \<rparr> data], Inl TypeError))"
      using handle_reaction [OF nb fs refl] .
    moreover have "fs ! (length fs - 1) = last fs"
      using fs(2) by (simp add: last_conv_nth)
    ultimately show ?thesis
      using True fs defaults by (auto split: if_splits)
  next
    case False
    then have "m_favorited_by data = None \<or> m_favorited_by data = Some []"
      by (cases "m_favorited_by data") auto
    then have "handleGroupMeWebhook E data = handle_message E data"
      using handle_not_reaction [OF nb] by blast
    then show ?thesis
      using False defaults handle_message_no_reaction_call [of _ _ E data]
        handle_message_kind [of E data]
      by auto
  qed
qed

theorem reaction_built_from_last_reactor_witness:
  "m_sender_type three_reactors \<noteq> Str (ascii ''bot'')
   \<and> m_favorited_by three_reactors
       = Some [reactor_with (Str [0xD83D, 0xDC4D]), reactor_with (Str [0x2764]),
               reactor_with Undefined]
   \<and> handleGroupMeWebhook (example_env (network_status 204) Undefined) three_reactors
       = ([Call_sendReactionToDiscord
             \<lparr> rd_favorited_by = reactor_with Undefined, rd_message_id = Str (ascii ''5''),
               rd_group_id = Undefined \<rparr> three_reactors,
           Call_makeRequest (PostReaction
             \<lparr> dr_username = ascii ''GroupMe Reactions'', dr_emoji = Glyph [0x2764, 0xFE0F],
               dr_reacterName = ascii ''Someone'', dr_messagePreview = ascii ''hi'',
               dr_avatar_url = Null \<rparr>)],
          Inr \<lparr> success = True, ignored = None, rtype = Some kind_reaction, hasReply = None \<rparr>)"
  using reaction_built_from_last_reactor [of three_reactors "example_env (network_status 204) Undefined"]
  by (simp add: three_reactors_def blank_message_def reactor_with_def example_env_def
        network_status_def reactionPayload_def convertReactionEmoji_def emojiMap_def
        Object_prototype_def ascii_def)

text \<open>
  Claim C8, as stated, at the empty text: it has at most 100 code units and does not pass
  through unchanged, the preview is the placeholder.
\<close>

theorem empty_text_preview_is_placeholder:
  "m_text empty_text_message = Str []
   \<and> dr_messagePreview
        (reactionPayload (reaction_of empty_text_message (reactor_with (Str [0xD83D, 0xDC4D])))
           empty_text_message)
       = ascii ''[No text content]''
   \<and> ascii ''[No text content]'' \<noteq> []"
  by (simp add: reactionPayload_def empty_text_message_def blank_message_def ascii_def)

text \<open>
  Claim C8, amended. The preview in a reaction notification has at most 100 code units.
  A non-empty text of at most 100 code units passes through unchanged; a longer one is
  replaced by its first 97 code units followed by \<open>...\<close>, 100 code units in all; a
  missing, null or empty text is replaced by the placeholder \<open>[No text content]\<close>.
  For a payload whose only reactor carries the thumbs-up U+1F44D, the reaction is built
  from that reactor and its emoji is the same thumbs-up.
\<close>

theorem reaction_preview_truncation:
  "length (dr_messagePreview (reactionPayload rd om)) \<le> 100
   \<and> (\<forall>t. m_text om = Str t \<and> t \<noteq> [] \<and> length t \<le> 100 \<longrightarrow>
          dr_messagePreview (reactionPayload rd om) = t)
   \<and> (\<forall>t. m_text om = Str t \<and> 100 < length t \<longrightarrow>
          dr_messagePreview (reactionPayload rd om) = take 97 t @ ascii ''...''
          \<and> length (dr_messagePreview (reactionPayload rd om)) = 100)
   \<and> (\<not> truthy (m_text om) \<longrightarrow>
          dr_messagePreview (reactionPayload rd om) = ascii ''[No text content]'')
   \<and> (re_emoji (rd_favorited_by rd) = Str [0xD83D, 0xDC4D] \<longrightarrow>
          dr_emoji (reactionPayload rd om) = Glyph [0xD83D, 0xDC4D])
   \<and> (\<forall>r. m_sender_type om \<noteq> Str (ascii ''bot'') \<and> m_favorited_by om = Some [r] \<longrightarrow>
          hd (fst (handleGroupMeWebhook E om)) = Call_sendReactionToDiscord (reaction_of om r) om)"
proof -
  have placeholder: "length (ascii ''[No text content]'') = 17"
    by (simp add: ascii_def)
  have dots: "length (ascii ''...'') = 3"
    by (simp add: ascii_def)
  have thumbs: "convertReactionEmoji [0xD83D, 0xDC4D] = Glyph [0xD83D, 0xDC4D]"
    by (simp add: convertReactionEmoji_def emojiMap_def)
  have a: "length (dr_messagePreview (reactionPayload rd om)) \<le> 100"
    by (cases "m_text om") (auto simp: reactionPayload_def Let_def placeholder dots)
  have b: "\<forall>t. m_text om = Str t \<and> t \<noteq> [] \<and> length t \<le> 100 \<longrightarrow>
          dr_messagePreview (reactionPayload rd om) = t"
    by (simp add: reactionPayload_def Let_def)
  have c: "\<forall>t. m_text om = Str t \<and> 100 < length t \<longrightarrow>
          dr_messagePreview (reactionPayload rd om) = take 97 t @ ascii ''...''
          \<and> length (dr_messagePreview (reactionPayload rd om)) = 100"
    by (auto simp: reactionPayload_def Let_def dots)
  have d: "\<not> truthy (m_text om) \<longrightarrow>
          dr_messagePreview (reactionPayload rd om) = ascii ''[No text content]''"
    by (cases "m_text om") (auto simp: reactionPayload_def Let_def placeholder)
  have e: "re_emoji (rd_favorited_by rd) = Str [0xD83D, 0xDC4D] \<longrightarrow>
          dr_emoji (reactionPayload rd om) = Glyph [0xD83D, 0xDC4D]"
    by (simp add: reactionPayload_def Let_def thumbs)
  have f: "\<forall>r. m_sender_type om \<noteq> Str (ascii ''bot'') \<and> m_favorited_by om = Some [r] \<longrightarrow>
          hd (fst (handleGroupMeWebhook E om)) = Call_sendReactionToDiscord (reaction_of om r) om"
    by (simp add: handleGroupMeWebhook_def sendReactionToDiscord_def makeRequest_def Let_def
          reaction_of_def)
  from a b c d e f show ?thesis by blast
qed

theorem reaction_preview_truncation_witness:
  "m_text long_text_message = Str (replicate 120 0x61)
   \<and> (100::nat) < length (replicate 120 (0x61::jschar))
   \<and> m_sender_type long_text_message \<noteq> Str (ascii ''bot'')
   \<and> m_favorited_by long_text_message = Some [reactor_with (Str [0xD83D, 0xDC4D])]
   \<and> re_emoji (rd_favorited_by (reaction_of long_text_message (reactor_with (Str [0xD83D, 0xDC4D]))))
       = Str [0xD83D, 0xDC4D]
   \<and> reactionPayload (reaction_of long_text_message (reactor_with (Str [0xD83D, 0xDC4D])))
        long_text_message
       = \<lparr> dr_username = ascii ''GroupMe Reactions'', dr_emoji = Glyph [0xD83D, 0xDC4D],
           dr_reacterName = ascii ''Someone'',
           dr_messagePreview = replicate 97 0x61 @ ascii ''...'', dr_avatar_url = Null \<rparr>
   \<and> length (replicate 97 (0x61::jschar) @ ascii ''...'') = 100
   \<and> fst (handleGroupMeWebhook (example_env (network_status 204) Undefined) long_text_message)
       = [Call_sendReactionToDiscord
            (reaction_of long_text_message (reactor_with (Str [0xD83D, 0xDC4D]))) long_text_message,
          Call_makeRequest (PostReaction
            (reactionPayload (reaction_of long_text_message (reactor_with (Str [0xD83D, 0xDC4D])))
               long_text_message))]"
  using reaction_preview_truncation [of "reaction_of long_text_message (reactor_with (Str [0xD83D, 0xDC4D]))"
               long_text_message "example_env (network_status 204) Undefined"]
  by (simp add: long_text_message_def blank_message_def reactor_with_def reaction_of_def
        example_env_def reactionPayload_def convertReactionEmoji_def emojiMap_def
        handleGroupMeWebhook_def sendReactionToDiscord_def makeRequest_def ascii_def Let_def)

section \<open>Self-exclusion\<close>




section \<open>Order of the heuristic patterns\<close>

text \<open>
  Claim C7. For a message with a non-empty text and a window \<open>w\<close>, \<open>detectReplyFromText\<close>
  returns the hit of the mention pattern if there is one, else the hit of the quote-line
  pattern if there is one, else the hit of the name-colon pattern, else nothing. The
  mention pattern captures \<open>g\<close> exactly when the text is \<open>pre\<close>, an at sign, \<open>g\<close> and
  \<open>post\<close>, with \<open>g\<close> a non-empty run of word characters that \<open>post\<close> does not continue
  and with no at sign in \<open>pre\<close> that a word character follows: \<open>g\<close> is the first
  \<open>@word\<close> token. The hit of the mention pattern is the first entry of \<open>w\<close> that
  satisfies \<open>mention_pred\<close> for the lower-cased token: its name is non-empty and,
  lower-cased, contains the token as a substring, and its id and \<open>user_id\<close> are not the
  message's.
\<close>

theorem detectReplyFromText_pattern_order:
  "m_text message = Str txt \<Longrightarrow> txt \<noteq> [] \<Longrightarrow>
     snd (detectReplyFromText E message (Arr w)) = Inr
       (case (case match_mention txt of None \<Rightarrow> None
              | Some g \<Rightarrow> find (mention_pred E message (toLowerCase E g)) w) of
          Some x \<Rightarrow> Some x
        | None \<Rightarrow>
            (case (case match_quote txt of None \<Rightarrow> None
                   | Some g \<Rightarrow> find (quote_pred E message (toLowerCase E g)) w) of
               Some x \<Rightarrow> Some x
             | None \<Rightarrow>
                 (case match_colon txt of None \<Rightarrow> None
                  | Some g \<Rightarrow> find (quote_pred E message (toLowerCase E g)) w)))
   \<and> (\<forall>g. match_mention txt = Some g \<longleftrightarrow>
          (\<exists>pre post. txt = pre @ 0x40 # g @ post \<and> g \<noteq> [] \<and> (\<forall>c\<in>set g. isWordChar c)
             \<and> (post = [] \<or> \<not> isWordChar (hd post))
             \<and> (\<forall>p q. pre = p @ 0x40 # q \<longrightarrow> \<not> isWordChar (hd (q @ [0x40])))))
   \<and> (\<forall>k msg. mention_pred E message k msg \<longleftrightarrow>
          (\<exists>n. m_name msg = Str n \<and> n \<noteq> [] \<and> (\<exists>a b. toLowerCase E n = a @ k @ b))
          \<and> m_id msg \<noteq> m_id message \<and> m_user_id msg \<noteq> m_user_id message)"
proof (intro conjI allI)
  assume t: "m_text message = Str txt" "txt \<noteq> []"
  show "snd (detectReplyFromText E message (Arr w)) = Inr
       (case (case match_mention txt of None \<Rightarrow> None
              | Some g \<Rightarrow> find (mention_pred E message (toLowerCase E g)) w) of
          Some x \<Rightarrow> Some x
        | None \<Rightarrow>
            (case (case match_quote txt of None \<Rightarrow> None
                   | Some g \<Rightarrow> find (quote_pred E message (toLowerCase E g)) w) of
               Some x \<Rightarrow> Some x
             | None \<Rightarrow>
                 (case match_colon txt of None \<Rightarrow> None
                  | Some g \<Rightarrow> find (quote_pred E message (toLowerCase E g)) w)))"
    using t by (simp add: detectReplyFromText_def replyPatterns_def pattern_loop_two
                  split: option.splits)
next
  fix g
  show "match_mention txt = Some g \<longleftrightarrow>
          (\<exists>pre post. txt = pre @ 0x40 # g @ post \<and> g \<noteq> [] \<and> (\<forall>c\<in>set g. isWordChar c)
             \<and> (post = [] \<or> \<not> isWordChar (hd post))
             \<and> (\<forall>p q. pre = p @ 0x40 # q \<longrightarrow> \<not> isWordChar (hd (q @ [0x40]))))"
    using match_mention_sound [of "txt" g] match_mention_complete [of g] by blast
next
  fix k msg
  show "mention_pred E message k msg \<longleftrightarrow>
          (\<exists>n. m_name msg = Str n \<and> n \<noteq> [] \<and> (\<exists>a b. toLowerCase E n = a @ k @ b))
          \<and> m_id msg \<noteq> m_id message \<and> m_user_id msg \<noteq> m_user_id message"
    by (cases "m_name msg") (auto simp: mention_pred_def js_includes_iff)
qed

theorem detectReplyFromText_pattern_order_witness:
  "m_text scenarioA_message = Str (ascii ''@Alice lol'')
   \<and> ascii ''@Alice lol'' \<noteq> []
   \<and> match_mention (ascii ''@Alice lol'') = Some (ascii ''Alice'')
   \<and> snd (detectReplyFromText (example_env network_down (Str (ascii ''token''))) scenarioA_message
            (Arr [scenarioA_alice]))
       = Inr (Some scenarioA_alice)
   \<and> m_text fallthrough_message = Str (ascii ''@zed'' @ [0x0A] @ ascii ''> HI'')
   \<and> match_mention (ascii ''@zed'' @ [0x0A] @ ascii ''> HI'') = Some (ascii ''zed'')
   \<and> match_quote (ascii ''@zed'' @ [0x0A] @ ascii ''> HI'') = Some (ascii ''HI'')
   \<and> snd (detectReplyFromText (example_env network_down (Str (ascii ''token''))) fallthrough_message
            (Arr [scenarioA_alice]))
       = Inr (Some scenarioA_alice)"
  using detectReplyFromText_pattern_order [of scenarioA_message "ascii ''@Alice lol''"
               "example_env network_down (Str (ascii ''token''))" "[scenarioA_alice]"]
        detectReplyFromText_pattern_order [of fallthrough_message "ascii ''@zed'' @ [0x0A] @ ascii ''> HI''"
               "example_env network_down (Str (ascii ''token''))" "[scenarioA_alice]"]
  by (simp add: scenarioA_message_def scenarioA_alice_def fallthrough_message_def
        blank_message_def example_env_def lowerASCII_def mention_pred_def quote_pred_def
        isWordChar_def isWhiteSpace_def isLineTerminator_def isDot_def match_quote_def
        quote_at_def startsWith_def ascii_def)

section \<open>The window of the heuristic detector\<close>

text \<open>
  Claim C10, as stated, at a message whose id is the empty string: no \<open>before_id\<close> is
  sent, and an endpoint that keeps the contract answers with a window that holds the
  message itself.
\<close>

theorem empty_id_window_holds_message:
  "honours_before [scenarioA_alice, empty_id_message]
     (network (example_env (history_api [scenarioA_alice, empty_id_message]) (Str (ascii ''token''))))
   \<and> fst (handleGroupMeWebhook
            (example_env (history_api [scenarioA_alice, empty_id_message]) (Str (ascii ''token'')))
            empty_id_message)
       = [Call_findReplyContext empty_id_message,
          Call_getGroupMeMessages Undefined (Str []) 20,
          Call_makeRequest (GetMessages Undefined 20 None),
          Call_detectReplyFromText empty_id_message (Arr [empty_id_message, scenarioA_alice]),
          Call_sendToDiscord empty_id_message (Some scenarioA_alice),
          Call_makeRequest (PostMessage (messagePayload empty_id_message (Some scenarioA_alice)))]
   \<and> empty_id_message \<in> set [empty_id_message, scenarioA_alice]"
proof -
  have "honours_before [scenarioA_alice, empty_id_message]
     (network (example_env (history_api [scenarioA_alice, empty_id_message]) (Str (ascii ''token''))))"
    using honours_history_api [of "[scenarioA_alice, empty_id_message]"]
    by (simp add: example_env_def)
  moreover have "fst (handleGroupMeWebhook
            (example_env (history_api [scenarioA_alice, empty_id_message]) (Str (ascii ''token'')))
            empty_id_message)
       = [Call_findReplyContext empty_id_message,
          Call_getGroupMeMessages Undefined (Str []) 20,
          Call_makeRequest (GetMessages Undefined 20 None),
          Call_detectReplyFromText empty_id_message (Arr [empty_id_message, scenarioA_alice]),
          Call_sendToDiscord empty_id_message (Some scenarioA_alice),
          Call_makeRequest (PostMessage (messagePayload empty_id_message (Some scenarioA_alice)))]"
    by (simp add: handleGroupMeWebhook_def handle_message_def handle_send_def
          findReplyContext_def getGroupMeMessages_def makeRequest_def messages_path_def
          detectReplyFromText_def sendToDiscord_def example_env_def history_api_def
          empty_id_message_def scenarioA_alice_def blank_message_def lowerASCII_def
          mention_pred_def isWordChar_def startsWith_def ascii_def Let_def)
  ultimately show ?thesis by simp
qed

text \<open>
  Claim C10, amended. When \<open>handleGroupMeWebhook\<close> calls \<open>detectReplyFromText\<close>, it does
  so on the inbound message and on the value of
  \<open>getGroupMeMessages(data.group_id, data.id, 20)\<close>, whose request is in the log. If the
  id of the inbound message is a non-empty string, that request carries it as
  \<open>before_id\<close>; if moreover the endpoint keeps the before-cursor contract, a window so
  obtained has at most 20 entries, all of them strictly before the inbound message in the
  conversation: none has its id, and the message itself is not among them. If the id is
  missing, null or the empty string, that request carries no \<open>before_id\<close>, and no request
  of the run carries one.
\<close>

theorem heuristic_window_strict_predecessors:
  "Call_detectReplyFromText m recent \<in> set (fst (handleGroupMeWebhook E data)) \<Longrightarrow>
     m = data
     \<and> Call_getGroupMeMessages (m_group_id data) (m_id data) 20
         \<in> set (fst (handleGroupMeWebhook E data))
     \<and> Call_makeRequest (messages_path (m_group_id data) (m_id data) 20)
         \<in> set (fst (handleGroupMeWebhook E data))
     \<and> snd (getGroupMeMessages E (m_group_id data) (m_id data) 20) = Inr recent
     \<and> (\<forall>b. m_id data = Str b \<and> b \<noteq> [] \<longrightarrow>
          messages_path (m_group_id data) (m_id data) 20
            = GetMessages (m_group_id data) 20 (Some b))
     \<and> (honours_before history (network E) \<and> truthy (m_id data) \<longrightarrow>
          (\<forall>w. recent = Arr w \<longrightarrow>
             length w \<le> 20
             \<and> set w \<subseteq> set (takeWhile (\<lambda>x. m_id x \<noteq> m_id data) history)
             \<and> (\<forall>x\<in>set w. m_id x \<noteq> m_id data)
             \<and> data \<notin> set w))
     \<and> (\<not> truthy (m_id data) \<longrightarrow>
          messages_path (m_group_id data) (m_id data) 20 = GetMessages (m_group_id data) 20 None
          \<and> (\<forall>g l b. Call_makeRequest (GetMessages g l (Some b))
                        \<notin> set (fst (handleGroupMeWebhook E data))))"
proof -
  assume c: "Call_detectReplyFromText m recent \<in> set (fst (handleGroupMeWebhook E data))"
  from handle_detect_call [OF c] have
    c': "Call_detectReplyFromText m recent \<in> set (fst (handle_message E data))"
    and eq: "fst (handleGroupMeWebhook E data) = fst (handle_message E data)"
    by blast+
  note d = handle_message_detect_call [OF c']
  have cur: "\<forall>b. m_id data = Str b \<and> b \<noteq> [] \<longrightarrow>
          messages_path (m_group_id data) (m_id data) 20
            = GetMessages (m_group_id data) 20 (Some b)"
    by (simp add: messages_path_def)
  have win: "honours_before history (network E) \<and> truthy (m_id data) \<longrightarrow>
          (\<forall>w. recent = Arr w \<longrightarrow>
             length w \<le> 20
             \<and> set w \<subseteq> set (takeWhile (\<lambda>x. m_id x \<noteq> m_id data) history)
             \<and> (\<forall>x\<in>set w. m_id x \<noteq> m_id data)
             \<and> data \<notin> set w)"
  proof (intro allI impI)
    fix w
    assume ht: "honours_before history (network E) \<and> truthy (m_id data)"
      and "recent = Arr w"
    with d have "snd (getGroupMeMessages E (m_group_id data) (m_id data) 20) = Inr (Arr w)"
      by simp
    from getGroupMeMessages_window [OF conjunct1 [OF ht] conjunct2 [OF ht] this]
    have l: "length w \<le> 20"
      and s: "set w \<subseteq> set (takeWhile (\<lambda>x. m_id x \<noteq> m_id data) history)"
      by blast+
    from s have "\<forall>x\<in>set w. m_id x \<noteq> m_id data"
      by (auto dest: set_takeWhileD)
    with l s show "length w \<le> 20
          \<and> set w \<subseteq> set (takeWhile (\<lambda>x. m_id x \<noteq> m_id data) history)
          \<and> (\<forall>x\<in>set w. m_id x \<noteq> m_id data)
          \<and> data \<notin> set w"
      by blast
  qed
  have nocur: "\<not> truthy (m_id data) \<longrightarrow>
          messages_path (m_group_id data) (m_id data) 20 = GetMessages (m_group_id data) 20 None
          \<and> (\<forall>g l b. Call_makeRequest (GetMessages g l (Some b))
                        \<notin> set (fst (handleGroupMeWebhook E data)))"
    using handle_no_cursor [of data _ _ _ E] by (simp add: messages_path_falsy)
  from d eq cur win nocur show ?thesis by simp
qed

theorem heuristic_window_strict_predecessors_witness:
  "honours_before [scenarioA_alice, scenarioA_message]
     (network (example_env (history_api [scenarioA_alice, scenarioA_message]) (Str (ascii ''token''))))
   \<and> truthy (m_id scenarioA_message)
   \<and> fst (handleGroupMeWebhook
            (example_env (history_api [scenarioA_alice, scenarioA_message]) (Str (ascii ''token'')))
            scenarioA_message)
       = [Call_findReplyContext scenarioA_message,
          Call_getGroupMeMessages Undefined (Str (ascii ''5'')) 20,
          Call_makeRequest (GetMessages Undefined 20 (Some (ascii ''5''))),
          Call_detectReplyFromText scenarioA_message (Arr [scenarioA_alice]),
          Call_sendToDiscord scenarioA_message (Some scenarioA_alice),
          Call_makeRequest (PostMessage (messagePayload scenarioA_message (Some scenarioA_alice)))]
   \<and> scenarioA_message \<notin> set [scenarioA_alice]
   \<and> takeWhile (\<lambda>x. m_id x \<noteq> m_id scenarioA_message) [scenarioA_alice, scenarioA_message]
       = [scenarioA_alice]
   \<and> \<not> truthy (m_id empty_id_message)
   \<and> fst (handleGroupMeWebhook
            (example_env (history_api [scenarioA_alice, empty_id_message]) (Str (ascii ''token'')))
            empty_id_message)
       = [Call_findReplyContext empty_id_message,
          Call_getGroupMeMessages Undefined (Str []) 20,
          Call_makeRequest (GetMessages Undefined 20 None),
          Call_detectReplyFromText empty_id_message (Arr [empty_id_message, scenarioA_alice]),
          Call_sendToDiscord empty_id_message (Some scenarioA_alice),
          Call_makeRequest (PostMessage (messagePayload empty_id_message (Some scenarioA_alice)))]
   \<and> messages_path (m_group_id empty_id_message) (m_id empty_id_message) 20
       = GetMessages Undefined 20 None
   \<and> \<not> truthy (m_id missing_id_message)
   \<and> fst (handleGroupMeWebhook
            (example_env (history_api [scenarioA_alice, missing_id_message]) (Str (ascii ''token'')))
            missing_id_message)
       = [Call_findReplyContext missing_id_message,
          Call_getGroupMeMessages Undefined Undefined 20,
          Call_makeRequest (GetMessages Undefined 20 None),
          Call_detectReplyFromText missing_id_message (Arr [missing_id_message, scenarioA_alice]),
          Call_sendToDiscord missing_id_message (Some scenarioA_alice),
          Call_makeRequest (PostMessage (messagePayload missing_id_message (Some scenarioA_alice)))]
   \<and> messages_path (m_group_id missing_id_message) (m_id missing_id_message) 20
       = GetMessages Undefined 20 None"
proof -
  have h: "honours_before [scenarioA_alice, scenarioA_message]
     (network (example_env (history_api [scenarioA_alice, scenarioA_message]) (Str (ascii ''token''))))"
    using honours_history_api [of "[scenarioA_alice, scenarioA_message]"]
    by (simp add: example_env_def)
  have t: "truthy (m_id scenarioA_message)"
    by (simp add: scenarioA_message_def blank_message_def ascii_def)
  have l: "fst (handleGroupMeWebhook
            (example_env (history_api [scenarioA_alice, scenarioA_message]) (Str (ascii ''token'')))
            scenarioA_message)
       = [Call_findReplyContext scenarioA_message,
          Call_getGroupMeMessages Undefined (Str (ascii ''5'')) 20,
          Call_makeRequest (GetMessages Undefined 20 (Some (ascii ''5''))),
          Call_detectReplyFromText scenarioA_message (Arr [scenarioA_alice]),
          Call_sendToDiscord scenarioA_message (Some scenarioA_alice),
          Call_makeRequest (PostMessage (messagePayload scenarioA_message (Some scenarioA_alice)))]"
    by (simp add: handleGroupMeWebhook_def handle_message_def handle_send_def
          findReplyContext_def getGroupMeMessages_def makeRequest_def messages_path_def
          detectReplyFromText_def sendToDiscord_def example_env_def history_api_def
          scenarioA_message_def scenarioA_alice_def blank_message_def lowerASCII_def
          mention_pred_def isWordChar_def startsWith_def ascii_def Let_def)
  have c: "Call_detectReplyFromText scenarioA_message (Arr [scenarioA_alice])
             \<in> set (fst (handleGroupMeWebhook
                  (example_env (history_api [scenarioA_alice, scenarioA_message])
                     (Str (ascii ''token'')))
                  scenarioA_message))"
    by (simp add: l)
  have w: "takeWhile (\<lambda>x. m_id x \<noteq> m_id scenarioA_message) [scenarioA_alice, scenarioA_message]
       = [scenarioA_alice]"
    by (simp add: scenarioA_message_def scenarioA_alice_def blank_message_def ascii_def)
  from heuristic_window_strict_predecessors
         [OF c, of "[scenarioA_alice, scenarioA_message]"] h t
  have n: "scenarioA_message \<notin> set [scenarioA_alice]"
    by blast
  have te: "\<not> truthy (m_id empty_id_message)"
    by (simp add: empty_id_message_def blank_message_def)
  have le: "fst (handleGroupMeWebhook
            (example_env (history_api [scenarioA_alice, empty_id_message]) (Str (ascii ''token'')))
            empty_id_message)
       = [Call_findReplyContext empty_id_message,
          Call_getGroupMeMessages Undefined (Str []) 20,
          Call_makeRequest (GetMessages Undefined 20 None),
          Call_detectReplyFromText empty_id_message (Arr [empty_id_message, scenarioA_alice]),
          Call_sendToDiscord empty_id_message (Some scenarioA_alice),
          Call_makeRequest (PostMessage (messagePayload empty_id_message (Some scenarioA_alice)))]"
    by (simp add: handleGroupMeWebhook_def handle_message_def handle_send_def
          findReplyContext_def getGroupMeMessages_def makeRequest_def messages_path_def
          detectReplyFromText_def sendToDiscord_def example_env_def history_api_def
          empty_id_message_def scenarioA_alice_def blank_message_def lowerASCII_def
          mention_pred_def isWordChar_def startsWith_def ascii_def Let_def)
  have ce: "Call_detectReplyFromText empty_id_message (Arr [empty_id_message, scenarioA_alice])
             \<in> set (fst (handleGroupMeWebhook
                  (example_env (history_api [scenarioA_alice, empty_id_message])
                     (Str (ascii ''token'')))
                  empty_id_message))"
    by (simp add: le)
  from heuristic_window_strict_predecessors [OF ce] te
  have pe: "messages_path (m_group_id empty_id_message) (m_id empty_id_message) 20
       = GetMessages Undefined 20 None"
    by (simp add: empty_id_message_def blank_message_def)
  have tm: "\<not> truthy (m_id missing_id_message)"
    by (simp add: missing_id_message_def blank_message_def)
  have lm: "fst (handleGroupMeWebhook
            (example_env (history_api [scenarioA_alice, missing_id_message]) (Str (ascii ''token'')))
            missing_id_message)
       = [Call_findReplyContext missing_id_message,
          Call_getGroupMeMessages Undefined Undefined 20,
          Call_makeRequest (GetMessages Undefined 20 None),
          Call_detectReplyFromText missing_id_message (Arr [missing_id_message, scenarioA_alice]),
          Call_sendToDiscord missing_id_message (Some scenarioA_alice),
          Call_makeRequest (PostMessage (messagePayload missing_id_message (Some scenarioA_alice)))]"
    by (simp add: handleGroupMeWebhook_def handle_message_def handle_send_def
          findReplyContext_def getGroupMeMessages_def makeRequest_def messages_path_def
          detectReplyFromText_def sendToDiscord_def example_env_def history_api_def
          missing_id_message_def scenarioA_alice_def blank_message_def lowerASCII_def
          mention_pred_def isWordChar_def startsWith_def ascii_def Let_def)
  have cm: "Call_detectReplyFromText missing_id_message (Arr [missing_id_message, scenarioA_alice])
             \<in> set (fst (handleGroupMeWebhook
                  (example_env (history_api [scenarioA_alice, missing_id_message])
                     (Str (ascii ''token'')))
                  missing_id_message))"
    by (simp add: lm)
  from heuristic_window_strict_predecessors [OF cm] tm
  have pm: "messages_path (m_group_id missing_id_message) (m_id missing_id_message) 20
       = GetMessages Undefined 20 None"
    by (simp add: missing_id_message_def blank_message_def)
  from h t l n w te le pe tm lm pm show ?thesis by blast
qed

end

